theory Spec2Isabelle
  imports Main "HOL-Library.Sublist" "HOL-Library.Char_ord" "HOL-Library.List_Lexorder"
begin

section \<open>Values, exceptions and tables\<close>

text \<open>
  A cell of a pandas DataFrame. \<open>NaN\<close>, \<open>PyNone\<close> and \<open>NaT\<close> are the three missing
  markers that \<open>isna\<close> recognises. Numeric cells are exact integers: rounding of
  floating-point numbers is outside this development.
\<close>

datatype cell = NaN | PyNone | NaT | Num int | Str string | Timestamp int

fun isna :: "cell \<Rightarrow> bool" where
  "isna NaN = True"
| "isna PyNone = True"
| "isna NaT = True"
| "isna (Num n) = False"
| "isna (Str s) = False"
| "isna (Timestamp t) = False"

text \<open>Python exceptions are values; \<open>str_exn\<close> is \<open>str(e)\<close>.\<close>

datatype exn =
    ValueError string
  | TypeError string
  | IndexError string
  | AxisError string
  | OtherError string

fun str_exn :: "exn \<Rightarrow> string" where
  "str_exn (ValueError m) = m"
| "str_exn (TypeError m) = m"
| "str_exn (IndexError m) = m"
| "str_exn (AxisError m) = m"
| "str_exn (OtherError m) = m"

text \<open>
  A DataFrame with a default range index: the ordered column labels and the rows, each
  row holding one cell per label. Column labels are unique in every table the services
  receive (the readers of CSV and Excel files rename repeated headers).
\<close>

record dataframe =
  columns :: "string list"
  rows :: "cell list list"

definition wf_frame :: "dataframe \<Rightarrow> bool" where
  "wf_frame df \<longleftrightarrow>
     distinct (columns df) \<and> list_all (\<lambda>r. length r = length (columns df)) (rows df)"

text \<open>\<open>row[label]\<close>; every caller checks first that the label is a column.\<close>

fun row_get :: "string list \<Rightarrow> cell list \<Rightarrow> string \<Rightarrow> cell" where
  "row_get (n # ns) (c # cs) k = (if n = k then c else row_get ns cs k)"
| "row_get ns cs k = NaN"

text \<open>\<open>df[label]\<close> as the list of the column's cells.\<close>

definition get_column :: "dataframe \<Rightarrow> string \<Rightarrow> cell list" where
  "get_column df k = map (\<lambda>r. row_get (columns df) r k) (rows df)"

text \<open>\<open>df[label] = df[label].apply(f)\<close>: the cells under the label are replaced.\<close>

fun map_under :: "string list \<Rightarrow> string \<Rightarrow> (cell \<Rightarrow> cell) \<Rightarrow> cell list \<Rightarrow> cell list" where
  "map_under (n # ns) k f (c # cs) = (if n = k then f c else c) # map_under ns k f cs"
| "map_under ns k f cs = cs"

definition map_column :: "(cell \<Rightarrow> cell) \<Rightarrow> string \<Rightarrow> dataframe \<Rightarrow> dataframe" where
  "map_column f k df = df\<lparr>rows := map (map_under (columns df) k f) (rows df)\<rparr>"

text \<open>
  \<open>df[label] = values\<close> for a list of values: an existing column is overwritten in
  place, a new label is appended as the last column, and a list whose length differs
  from the number of rows raises \<open>ValueError\<close>.
\<close>

fun replace_at :: "string list \<Rightarrow> string \<Rightarrow> cell \<Rightarrow> cell list \<Rightarrow> cell list" where
  "replace_at (n # ns) k v (c # cs) = (if n = k then v # cs else c # replace_at ns k v cs)"
| "replace_at ns k v cs = cs"

definition set_column :: "dataframe \<Rightarrow> string \<Rightarrow> cell list \<Rightarrow> exn + dataframe" where
  "set_column df k vs =
     (if length vs \<noteq> length (rows df)
      then Inl (ValueError ''Length of values does not match length of index'')
      else if k \<in> set (columns df)
      then Inr (df\<lparr>rows := map2 (\<lambda>r v. replace_at (columns df) k v r) (rows df) vs\<rparr>)
      else Inr \<lparr>columns = columns df @ [k], rows = map2 (\<lambda>r v. r @ [v]) (rows df) vs\<rparr>)"

subsection \<open>Objects and references\<close>

text \<open>
  DataFrames are mutable objects. The store lists the objects allocated so far and a
  reference is a position in it; \<open>df.copy()\<close> and every pandas call that returns a new
  frame allocate, an item assignment \<open>df[label] = \<dots>\<close> overwrites the object in place.
\<close>

type_synonym heap = "dataframe list"

definition alloc :: "heap \<Rightarrow> dataframe \<Rightarrow> nat \<times> heap" where
  "alloc h df = (length h, h @ [df])"

definition copy_frame :: "heap \<Rightarrow> nat \<Rightarrow> nat \<times> heap" where
  "copy_frame h r = alloc h (h ! r)"

section \<open>Data cleaning service\<close>

record CleaningOptions =
  remove_duplicates :: bool
  handle_missing :: string
  fill_value :: "cell option"
  trim_whitespace :: bool
  text_case :: "string option"
  date_columns :: "string list"
  date_format :: "string option"

datatype detail = DCount nat | DCell cell | DText string | DNames "string list"

type_synonym operation_log = "string \<times> (string \<times> detail) list"

record DataCleaner =
  original_df :: nat
  cleaned_df :: nat
  applied_operations :: "operation_log list"

text \<open>
  The library calls whose result the cleaning service only passes on: which columns
  \<open>select_dtypes(include=['object'])\<close> selects, the string methods, and
  \<open>pd.to_datetime(\<dots>, errors='coerce')\<close> on a column with an optional format.
\<close>

record cleaning_lib =
  is_object_dtype :: "dataframe \<Rightarrow> string \<Rightarrow> bool"
  str_strip :: "string \<Rightarrow> string"
  str_upper :: "string \<Rightarrow> string"
  str_lower :: "string \<Rightarrow> string"
  str_title :: "string \<Rightarrow> string"
  to_datetime :: "string option \<Rightarrow> cell list \<Rightarrow> exn + cell list"

subsection \<open>The pandas operations used\<close>

text \<open>\<open>drop_duplicates()\<close>: the first occurrence of every row is kept, in order.\<close>

fun keep_first :: "'a list \<Rightarrow> 'a list \<Rightarrow> 'a list" where
  "keep_first seen [] = []"
| "keep_first seen (x # xs) =
     (if x \<in> set seen then keep_first seen xs else x # keep_first (x # seen) xs)"

definition drop_duplicates :: "dataframe \<Rightarrow> dataframe" where
  "drop_duplicates df = df\<lparr>rows := keep_first [] (rows df)\<rparr>"

text \<open>\<open>dropna()\<close>: the rows without a missing cell, in order.\<close>

definition dropna :: "dataframe \<Rightarrow> dataframe" where
  "dropna df = df\<lparr>rows := filter (\<lambda>r. \<not> list_ex isna r) (rows df)\<rparr>"

text \<open>\<open>isna().sum().sum()\<close>: the number of missing cells.\<close>

definition isna_count :: "dataframe \<Rightarrow> nat" where
  "isna_count df = sum_list (map (\<lambda>r. length (filter isna r)) (rows df))"

text \<open>\<open>fillna(v)\<close> for a scalar \<open>v\<close>.\<close>

definition fillna :: "cell \<Rightarrow> dataframe \<Rightarrow> dataframe" where
  "fillna v df = df\<lparr>rows := map (map (\<lambda>c. if isna c then v else c)) (rows df)\<rparr>"

text \<open>\<open>lambda x: f(x) if isinstance(x, str) else x\<close>\<close>

fun on_str :: "(string \<Rightarrow> string) \<Rightarrow> cell \<Rightarrow> cell" where
  "on_str f (Str s) = Str (f s)"
| "on_str f c = c"

definition str_cols :: "cleaning_lib \<Rightarrow> dataframe \<Rightarrow> string list" where
  "str_cols L df = filter (is_object_dtype L df) (columns df)"

subsection \<open>The methods of \<open>DataCleaner\<close>\<close>

definition DataCleaner_init :: "heap \<Rightarrow> nat \<Rightarrow> DataCleaner \<times> heap" where
  "DataCleaner_init h df =
     (let (r, h') = copy_frame h df
      in (\<lparr>original_df = df, cleaned_df = r, applied_operations = []\<rparr>, h'))"

definition log_operation ::
  "string \<Rightarrow> (string \<times> detail) list \<Rightarrow> DataCleaner \<Rightarrow> DataCleaner" where
  "log_operation operation details self =
     self\<lparr>applied_operations := applied_operations self @ [(operation, details)]\<rparr>"

definition DataCleaner_remove_duplicates :: "DataCleaner \<times> heap \<Rightarrow> DataCleaner \<times> heap" where
  "DataCleaner_remove_duplicates s =
     (let (self, h) = s;
          initial_count = length (rows (h ! cleaned_df self));
          (r, h') = alloc h (drop_duplicates (h ! cleaned_df self));
          self' = self\<lparr>cleaned_df := r\<rparr>;
          removed_count = initial_count - length (rows (h' ! r))
      in if removed_count > 0
         then (log_operation ''remove_duplicates'' [(''rows_removed'', DCount removed_count)] self', h')
         else (self', h'))"

definition handle_missing_values ::
  "string \<Rightarrow> cell option \<Rightarrow> DataCleaner \<times> heap \<Rightarrow> DataCleaner \<times> heap" where
  "handle_missing_values method fv s =
     (let (self, h) = s in
      if method = ''drop'' then
        (let initial_count = length (rows (h ! cleaned_df self));
             (r, h') = alloc h (dropna (h ! cleaned_df self));
             self' = self\<lparr>cleaned_df := r\<rparr>;
             removed_count = initial_count - length (rows (h' ! r))
         in if removed_count > 0
            then (log_operation ''drop_missing_values''
                    [(''rows_removed'', DCount removed_count)] self', h')
            else (self', h'))
      else if method = ''fill'' then
        (case fv of
           None \<Rightarrow> (self, h)
         | Some v \<Rightarrow>
            (let fill_count = isna_count (h ! cleaned_df self);
                 (r, h') = alloc h (fillna v (h ! cleaned_df self));
                 self' = self\<lparr>cleaned_df := r\<rparr>
             in if fill_count > 0
                then (log_operation ''fill_missing_values''
                        [(''values_filled'', DCount fill_count), (''fill_value'', DCell v)] self', h')
                else (self', h')))
      else (self, h))"

text \<open>The loop \<open>for col in cols: self.cleaned_df[col] = self.cleaned_df[col].apply(f)\<close>.\<close>

fun apply_to_columns ::
  "(cell \<Rightarrow> cell) \<Rightarrow> string list \<Rightarrow> nat \<Rightarrow> heap \<Rightarrow> heap" where
  "apply_to_columns f [] r h = h"
| "apply_to_columns f (col # cols) r h = apply_to_columns f cols r (h[r := map_column f col (h ! r)])"

definition DataCleaner_trim_whitespace ::
  "cleaning_lib \<Rightarrow> DataCleaner \<times> heap \<Rightarrow> DataCleaner \<times> heap" where
  "DataCleaner_trim_whitespace L s =
     (let (self, h) = s;
          cols = str_cols L (h ! cleaned_df self);
          h' = apply_to_columns (on_str (str_strip L)) cols (cleaned_df self) h
      in if length cols > 0 then (log_operation ''trim_whitespace'' [] self, h') else (self, h'))"

definition standardize_text_case ::
  "cleaning_lib \<Rightarrow> string \<Rightarrow> DataCleaner \<times> heap \<Rightarrow> DataCleaner \<times> heap" where
  "standardize_text_case L case_name s =
     (let (self, h) = s;
          cols = str_cols L (h ! cleaned_df self);
          h' = (if case_name = ''upper''
                then apply_to_columns (on_str (str_upper L)) cols (cleaned_df self) h
                else if case_name = ''lower''
                then apply_to_columns (on_str (str_lower L)) cols (cleaned_df self) h
                else if case_name = ''title''
                then apply_to_columns (on_str (str_title L)) cols (cleaned_df self) h
                else h)
      in if length cols > 0
         then (log_operation ''standardize_text_case'' [(''case'', DText case_name)] self, h')
         else (self, h'))"

text \<open>
  The loop of \<open>_parse_dates\<close>: a column whose conversion or assignment raises is left as
  it is and the error is logged. Both branches of the source call \<open>pd.to_datetime\<close>
  with \<open>errors='coerce'\<close>, with the format when it is given and non-empty.
\<close>

fun parse_date_columns ::
  "cleaning_lib \<Rightarrow> string option \<Rightarrow> string list \<Rightarrow> DataCleaner \<times> heap \<Rightarrow> DataCleaner \<times> heap" where
  "parse_date_columns L fmt [] s = s"
| "parse_date_columns L fmt (col # cols) (self, h) =
     (let df = h ! cleaned_df self;
          eff = (case fmt of None \<Rightarrow> None | Some f \<Rightarrow> if f = [] then None else Some f);
          attempt = (case to_datetime L eff (get_column df col) of
                       Inl e \<Rightarrow> Inl e
                     | Inr vs \<Rightarrow> set_column df col vs)
      in case attempt of
           Inl e \<Rightarrow>
             parse_date_columns L fmt cols
               (log_operation ''parse_dates_error''
                  [(''column'', DText col), (''error'', DText (str_exn e))] self, h)
         | Inr df' \<Rightarrow> parse_date_columns L fmt cols (self, h[cleaned_df self := df']))"

definition parse_dates ::
  "cleaning_lib \<Rightarrow> string list \<Rightarrow> string option \<Rightarrow> DataCleaner \<times> heap \<Rightarrow> DataCleaner \<times> heap" where
  "parse_dates L dcols fmt s =
     (if dcols = [] then s
      else
        (let present = filter (\<lambda>col. col \<in> set (columns (snd s ! cleaned_df (fst s)))) dcols;
             (self, h) = parse_date_columns L fmt present s
         in if present \<noteq> []
            then (log_operation ''parse_dates'' [(''columns'', DNames present)] self, h)
            else (self, h)))"

definition clean :: "cleaning_lib \<Rightarrow> CleaningOptions \<Rightarrow> DataCleaner \<times> heap \<Rightarrow> DataCleaner \<times> heap" where
  "clean L options s =
     (let s1 = (if remove_duplicates options then DataCleaner_remove_duplicates s else s);
          s2 = (if handle_missing options \<noteq> ''keep''
                then handle_missing_values (handle_missing options) (fill_value options) s1
                else s1);
          s3 = (if trim_whitespace options then DataCleaner_trim_whitespace L s2 else s2);
          s4 = (case text_case options of
                  None \<Rightarrow> s3
                | Some c \<Rightarrow> if c = [] then s3 else standardize_text_case L c s3);
          s5 = (if date_columns options \<noteq> []
                then parse_dates L (date_columns options) (date_format options) s4
                else s4)
      in s5)"

definition get_cleaned_data :: "DataCleaner \<times> heap \<Rightarrow> dataframe" where
  "get_cleaned_data s = snd s ! cleaned_df (fst s)"

definition get_applied_operations :: "DataCleaner \<times> heap \<Rightarrow> operation_log list" where
  "get_applied_operations s = applied_operations (fst s)"


subsection \<open>Notions used to state the properties of cleaning\<close>

text \<open>No cell of the table is missing.\<close>

definition no_missing :: "dataframe \<Rightarrow> bool" where
  "no_missing df \<longleftrightarrow> list_all (\<lambda>r. \<not> list_ex isna r) (rows df)"

text \<open>
  Two cells that differ at most in the text of a string, and two tables with the same
  labels whose rows correspond one to one, in order, up to the text of their strings:
  trimming and case normalisation change nothing else.
\<close>

fun str_variant :: "cell \<Rightarrow> cell \<Rightarrow> bool" where
  "str_variant (Str s) (Str s') = True"
| "str_variant (Str s) c = False"
| "str_variant c c' = (c = c')"

definition frame_variant :: "dataframe \<Rightarrow> dataframe \<Rightarrow> bool" where
  "frame_variant d d' \<longleftrightarrow>
     columns d' = columns d \<and> list_all2 (list_all2 str_variant) (rows d) (rows d')"

text \<open>
  The cleaner's working table is an object allocated at or after position \<open>n\<close>, and a
  later state has left the objects below \<open>n\<close> as they were.
\<close>

definition fresh :: "nat \<Rightarrow> DataCleaner \<times> heap \<Rightarrow> bool" where
  "fresh n s \<longleftrightarrow> n \<le> cleaned_df (fst s) \<and> cleaned_df (fst s) < length (snd s)"

definition same_below :: "nat \<Rightarrow> DataCleaner \<times> heap \<Rightarrow> DataCleaner \<times> heap \<Rightarrow> bool" where
  "same_below n s s' \<longleftrightarrow>
     fresh n s' \<and> take n (snd s') = take n (snd s) \<and> original_df (fst s') = original_df (fst s)"

subsection \<open>The library on ASCII text and ISO dates\<close>

text \<open>
  An instance of the library calls, for evaluating the service on concrete tables whose
  strings are ASCII: Python's \<open>strip\<close>, \<open>upper\<close>, \<open>lower\<close> and \<open>title\<close> on ASCII
  characters, a column counted as of object dtype when it holds a string, and
  \<open>pd.to_datetime(col, format='%Y-%m-%d', errors='coerce')\<close>, which turns every cell
  that is not a date of that form into \<open>NaT\<close>. A timestamp is encoded as the number
  \<open>10000 * year + 100 * month + day\<close>. Other formats are not evaluated here.
\<close>

definition is_space :: "char \<Rightarrow> bool" where
  "is_space c \<longleftrightarrow> (let n = (of_char c :: nat) in (9 \<le> n \<and> n \<le> 13) \<or> (28 \<le> n \<and> n \<le> 32))"

definition is_lower :: "char \<Rightarrow> bool" where
  "is_lower c \<longleftrightarrow> (let n = (of_char c :: nat) in 97 \<le> n \<and> n \<le> 122)"

definition is_upper :: "char \<Rightarrow> bool" where
  "is_upper c \<longleftrightarrow> (let n = (of_char c :: nat) in 65 \<le> n \<and> n \<le> 90)"

definition to_upper :: "char \<Rightarrow> char" where
  "to_upper c = (if is_lower c then char_of ((of_char c :: nat) - 32) else c)"

definition to_lower :: "char \<Rightarrow> char" where
  "to_lower c = (if is_upper c then char_of ((of_char c :: nat) + 32) else c)"

definition ascii_strip :: "string \<Rightarrow> string" where
  "ascii_strip s = rev (dropWhile is_space (rev (dropWhile is_space s)))"

fun ascii_title :: "bool \<Rightarrow> string \<Rightarrow> string" where
  "ascii_title prev [] = []"
| "ascii_title prev (c # cs) =
     (if is_lower c then (if prev then c else to_upper c) # ascii_title True cs
      else if is_upper c then (if prev then to_lower c else c) # ascii_title True cs
      else c # ascii_title False cs)"

definition digit_val :: "char \<Rightarrow> nat option" where
  "digit_val c = (let n = (of_char c :: nat) in if 48 \<le> n \<and> n \<le> 57 then Some (n - 48) else None)"

fun digits_val :: "string \<Rightarrow> nat option" where
  "digits_val [] = Some 0"
| "digits_val (c # cs) =
     (case digit_val c of
        None \<Rightarrow> None
      | Some d \<Rightarrow> (case digits_val cs of None \<Rightarrow> None | Some v \<Rightarrow> Some (d * 10 ^ length cs + v)))"

definition days_in_month :: "nat \<Rightarrow> nat \<Rightarrow> nat" where
  "days_in_month y m =
     (if m = 2 then (if y mod 4 = 0 \<and> (y mod 100 \<noteq> 0 \<or> y mod 400 = 0) then 29 else 28)
      else if m = 4 \<or> m = 6 \<or> m = 9 \<or> m = 11 then 30 else 31)"

definition parse_ymd :: "string \<Rightarrow> int option" where
  "parse_ymd s =
     (if length s = 10 \<and> s ! 4 = CHR ''-'' \<and> s ! 7 = CHR ''-''
      then (case (digits_val (take 4 s), digits_val (take 2 (drop 5 s)), digits_val (drop 8 s)) of
              (Some y, Some m, Some d) \<Rightarrow>
                if 1 \<le> y \<and> 1 \<le> m \<and> m \<le> 12 \<and> 1 \<le> d \<and> d \<le> days_in_month y m
                then Some (int (10000 * y + 100 * m + d)) else None
            | _ \<Rightarrow> None)
      else None)"

fun coerce_ymd :: "cell \<Rightarrow> cell" where
  "coerce_ymd (Str s) = (case parse_ymd s of None \<Rightarrow> NaT | Some t \<Rightarrow> Timestamp t)"
| "coerce_ymd (Timestamp t) = Timestamp t"
| "coerce_ymd c = NaT"

fun is_str :: "cell \<Rightarrow> bool" where
  "is_str (Str s) = True"
| "is_str c = False"

definition ascii_lib :: cleaning_lib where
  "ascii_lib =
     \<lparr>is_object_dtype = (\<lambda>df k. list_ex is_str (get_column df k)),
      str_strip = ascii_strip,
      str_upper = map to_upper,
      str_lower = map to_lower,
      str_title = ascii_title False,
      to_datetime = (\<lambda>fmt col.
         if fmt = Some ''%Y-%m-%d'' then Inr (map coerce_ymd col)
         else Inl (ValueError ''format not evaluated''))\<rparr>"

section \<open>Calculation service\<close>

subsection \<open>Python values and text\<close>

text \<open>
  The scalars a rule can carry (a JSON null, integer or string) and the values of a
  condition, a scalar or a list of scalars.
\<close>

datatype scalar = SNone | SInt int | SStr string

datatype pyval = Scalar scalar | PList "scalar list"

fun cell_of :: "scalar \<Rightarrow> cell" where
  "cell_of SNone = PyNone"
| "cell_of (SInt i) = Num i"
| "cell_of (SStr s) = Str s"

text \<open>\<open>sep.join(xs)\<close>\<close>

fun join_with :: "string \<Rightarrow> string list \<Rightarrow> string" where
  "join_with sep [] = []"
| "join_with sep [x] = x"
| "join_with sep (x # y # xs) = x @ sep @ join_with sep (y # xs)"

text \<open>\<open>str(n)\<close> for an integer: its decimal digits.\<close>

fun str_nat :: "nat \<Rightarrow> string" where
  "str_nat n = (if n < 10 then [char_of (48 + n)] else str_nat (n div 10) @ [char_of (48 + n mod 10)])"

declare str_nat.simps [simp del]

definition str_int :: "int \<Rightarrow> string" where
  "str_int i = (if i < 0 then CHR ''-'' # str_nat (nat (- i)) else str_nat (nat i))"

fun str_scalar :: "scalar \<Rightarrow> string" where
  "str_scalar SNone = ''None''"
| "str_scalar (SInt i) = str_int i"
| "str_scalar (SStr s) = s"

text \<open>A text between single quotes, as the messages of the service write a label.\<close>

definition quoted :: "string \<Rightarrow> string" where
  "quoted s = CHR 0x27 # s @ [CHR 0x27]"

subsection \<open>Rules, results and the library\<close>

text \<open>The members of the enumeration \<open>CalculationType\<close>.\<close>

datatype CalculationType = OpSum | OpCount | OpCountif | OpSumif | OpIf | OpCustom

record CalculationRule =
  name :: string
  operation :: CalculationType
  rule_columns :: "string list"
  condition :: "(string \<times> pyval) list option"
  true_value :: scalar
  false_value :: scalar
  custom_function :: "string option"

text \<open>
  \<open>columns_added\<close> is built from a Python set, whose order is not fixed: it is a set
  here. \<open>result_df\<close> is a reference to a table, or \<open>None\<close>.
\<close>

record CalculationResult =
  success :: bool
  message :: string
  columns_added :: "string set"
  error :: "string option"
  result_df :: "nat option"

text \<open>What \<open>exec\<close> leaves in \<open>result\<close>: a scalar, or one value per row.\<close>

datatype exec_result = ScalarResult cell | ArrayResult "cell list"

text \<open>
  The library calls that are not evaluated in this development, as parameters: the six
  comparison operators of a column with a value, \<open>isin\<close>, \<open>str.contains\<close> for a
  pattern that holds a metacharacter of regular expressions, the text of a number or of
  a timestamp under \<open>astype(str)\<close> (it depends on the column's dtype), \<open>str\<close> of a
  list, the row-wise sum of a selection that holds a cell other than a number or
  \<open>NaN\<close>, and \<open>exec\<close> of a custom expression on the working table.
\<close>

record calc_lib =
  series_compare :: "string \<Rightarrow> cell list \<Rightarrow> pyval \<Rightarrow> exn + bool list"
  series_isin :: "cell list \<Rightarrow> pyval \<Rightarrow> exn + bool list"
  regex_contains :: "string \<Rightarrow> string list \<Rightarrow> exn + bool list"
  value_str :: "cell list \<Rightarrow> cell \<Rightarrow> string"
  str_list :: "scalar list \<Rightarrow> string"
  object_sum :: "cell list list \<Rightarrow> exn + cell list"
  py_exec :: "string \<Rightarrow> dataframe \<Rightarrow> exn + exec_result"

fun py_str :: "calc_lib \<Rightarrow> pyval \<Rightarrow> string" where
  "py_str L (Scalar x) = str_scalar x"
| "py_str L (PList xs) = str_list L xs"

type_synonym calc_log = "string \<times> CalculationType \<times> string \<times> string list"

record DataFrameCalculator =
  calc_df :: nat
  original_columns :: "string set"
  applied_calculations :: "calc_log list"

text \<open>Sequencing of calls that may raise: the first exception ends the sequence.\<close>

definition then_do :: "exn + 'a \<Rightarrow> ('a \<Rightarrow> exn + 'b) \<Rightarrow> exn + 'b" where
  "then_do m f = (case m of Inl e \<Rightarrow> Inl e | Inr x \<Rightarrow> f x)"

subsection \<open>The pandas and numpy operations used\<close>

text \<open>\<open>df[cols]\<close> as rows: the cells of every row under the listed labels, in the order listed.\<close>

definition select_columns :: "dataframe \<Rightarrow> string list \<Rightarrow> cell list list" where
  "select_columns df cols = map (\<lambda>r. map (row_get (columns df) r) cols) (rows df)"

fun is_numeric :: "cell \<Rightarrow> bool" where
  "is_numeric (Num n) = True"
| "is_numeric NaN = True"
| "is_numeric c = False"

fun num_value :: "cell \<Rightarrow> int" where
  "num_value (Num n) = n"
| "num_value c = 0"

text \<open>
  \<open>df[cols].sum(axis=1)\<close>: on a numeric selection the sum of every row, a missing cell
  counting as zero (\<open>skipna=True\<close>).
\<close>

definition sum_axis1 :: "calc_lib \<Rightarrow> dataframe \<Rightarrow> string list \<Rightarrow> exn + cell list" where
  "sum_axis1 L df cols =
     (let sel = select_columns df cols
      in if list_all (list_all is_numeric) sel
         then Inr (map (\<lambda>r. Num (sum_list (map num_value r))) sel)
         else object_sum L sel)"

text \<open>\<open>df[cols].count(axis=1)\<close>: the number of cells of every row that are not missing.\<close>

definition count_axis1 :: "dataframe \<Rightarrow> string list \<Rightarrow> cell list" where
  "count_axis1 df cols =
     map (\<lambda>r. Num (int (length (filter (\<lambda>c. \<not> isna c) r)))) (select_columns df cols)"

text \<open>
  \<open>astype(str)\<close> on a column: a string is kept, and a missing cell becomes the text
  of its marker, so that no cell is missing afterwards.
\<close>

definition astype_str :: "calc_lib \<Rightarrow> cell list \<Rightarrow> string list" where
  "astype_str L col =
     map (\<lambda>c. case c of
                 NaN \<Rightarrow> ''nan''
               | PyNone \<Rightarrow> ''None''
               | NaT \<Rightarrow> ''NaT''
               | Str s \<Rightarrow> s
               | Num n \<Rightarrow> value_str L col c
               | Timestamp t \<Rightarrow> value_str L col c) col"

text \<open>
  \<open>str.contains(pat, na=False)\<close> on a column of strings searches the pattern as a
  regular expression; a pattern without metacharacter matches where it occurs as a
  substring.
\<close>

definition is_regex_meta :: "char \<Rightarrow> bool" where
  "is_regex_meta c \<longleftrightarrow> c \<in> set (''.^$*+?{}[]|()'' @ [CHR 0x5C])"

definition str_contains :: "calc_lib \<Rightarrow> string \<Rightarrow> string list \<Rightarrow> exn + bool list" where
  "str_contains L pat strs =
     (if list_ex is_regex_meta pat then regex_contains L pat strs
      else Inr (map (\<lambda>s. sublist pat s) strs))"

text \<open>
  numpy arrays of one and of two dimensions. \<open>np.where\<close> on a column of booleans gives
  an array of one dimension; with a text and an integer as the two scalars, the integer
  is converted to text. \<open>sum(axis=1)\<close> needs a second dimension.
\<close>

datatype ndarray = Array1 "cell list" | Array2 "cell list list"

fun where_cells :: "scalar \<Rightarrow> scalar \<Rightarrow> cell \<times> cell" where
  "where_cells (SStr a) (SInt n) = (Str a, Str (str_int n))"
| "where_cells (SInt n) (SStr b) = (Str (str_int n), Str b)"
| "where_cells x y = (cell_of x, cell_of y)"

definition np_where :: "bool list \<Rightarrow> scalar \<Rightarrow> scalar \<Rightarrow> ndarray" where
  "np_where cond x y =
     (let (cx, cy) = where_cells x y in Array1 (map (\<lambda>b. if b then cx else cy) cond))"

definition np_where_column :: "bool list \<Rightarrow> cell list \<Rightarrow> cell \<Rightarrow> ndarray" where
  "np_where_column cond xs y = Array1 (map2 (\<lambda>b x. if b then x else y) cond xs)"

fun ndarray_sum_axis1 :: "ndarray \<Rightarrow> exn + cell list" where
  "ndarray_sum_axis1 (Array1 xs) = Inl (AxisError ''axis 1 is out of bounds for array of dimension 1'')"
| "ndarray_sum_axis1 (Array2 rs) = Inr (map (\<lambda>r. Num (sum_list (map num_value r))) rs)"

fun ndarray_values :: "ndarray \<Rightarrow> exn + cell list" where
  "ndarray_values (Array1 xs) = Inr xs"
| "ndarray_values (Array2 rs) = Inl (ValueError ''Expected a 1D array, got an array with shape'')"

subsection \<open>The methods of \<open>DataFrameCalculator\<close>\<close>

definition DataFrameCalculator_init :: "heap \<Rightarrow> nat \<Rightarrow> DataFrameCalculator \<times> heap" where
  "DataFrameCalculator_init h df =
     (let (r, h') = copy_frame h df
      in (\<lparr>calc_df = r, original_columns = set (columns (h ! df)), applied_calculations = []\<rparr>, h'))"

definition validate_columns_exist :: "string list \<Rightarrow> dataframe \<Rightarrow> exn + unit" where
  "validate_columns_exist cols df =
     (let missing = filter (\<lambda>col. col \<notin> set (columns df)) cols
      in if missing \<noteq> [] then Inl (ValueError (''Columns not found: '' @ join_with '', '' missing))
         else Inr ())"

definition calc_log_operation ::
  "CalculationRule \<Rightarrow> string \<Rightarrow> DataFrameCalculator \<times> heap \<Rightarrow> DataFrameCalculator \<times> heap" where
  "calc_log_operation rule details s =
     (let (self, h) = s
      in (self\<lparr>applied_calculations :=
                 applied_calculations self @ [(name rule, operation rule, details, rule_columns rule)]\<rparr>, h))"

text \<open>\<open>self.df[label] = values\<close>: the working table is overwritten in place.\<close>

definition assign_column ::
  "string \<Rightarrow> cell list \<Rightarrow> DataFrameCalculator \<times> heap \<Rightarrow> exn + DataFrameCalculator \<times> heap" where
  "assign_column k vs s =
     (let (self, h) = s
      in then_do (set_column (h ! calc_df self) k vs) (\<lambda>df'. Inr (self, h[calc_df self := df'])))"

definition working_table :: "DataFrameCalculator \<times> heap \<Rightarrow> dataframe" where
  "working_table s = snd s ! calc_df (fst s)"

definition format_condition :: "calc_lib \<Rightarrow> (string \<times> pyval) list \<Rightarrow> string" where
  "format_condition L cond =
     (if cond = [] then []
      else (case map_of cond ''operator'' of None \<Rightarrow> ''?'' | Some v \<Rightarrow> py_str L v) @ '' '' @
           (case map_of cond ''value'' of None \<Rightarrow> ''?'' | Some v \<Rightarrow> py_str L v))"

definition parse_condition ::
  "calc_lib \<Rightarrow> dataframe \<Rightarrow> string \<Rightarrow> (string \<times> pyval) list \<Rightarrow> exn + bool list" where
  "parse_condition L df column cond =
     (case (map_of cond ''operator'', map_of cond ''value'') of
        (Some op, Some v) \<Rightarrow>
          if op = Scalar (SStr ''=='') then series_compare L ''=='' (get_column df column) v
          else if op = Scalar (SStr ''!='') then series_compare L ''!='' (get_column df column) v
          else if op = Scalar (SStr ''>'') then series_compare L ''>'' (get_column df column) v
          else if op = Scalar (SStr ''>='') then series_compare L ''>='' (get_column df column) v
          else if op = Scalar (SStr ''<'') then series_compare L ''<'' (get_column df column) v
          else if op = Scalar (SStr ''<='') then series_compare L ''<='' (get_column df column) v
          else if op = Scalar (SStr ''in'') then series_isin L (get_column df column) v
          else if op = Scalar (SStr ''contains'')
          then str_contains L (py_str L v) (astype_str L (get_column df column))
          else Inl (ValueError (''Unsupported operator: '' @ py_str L op))
      | _ \<Rightarrow>
          Inl (ValueError (''Condition must include '' @ quoted ''operator'' @ '' and '' @ quoted ''value'')))"

definition apply_sum ::
  "calc_lib \<Rightarrow> CalculationRule \<Rightarrow> DataFrameCalculator \<times> heap \<Rightarrow> exn + DataFrameCalculator \<times> heap" where
  "apply_sum L rule s =
     then_do (validate_columns_exist (rule_columns rule) (working_table s)) (\<lambda>_.
     then_do (sum_axis1 L (working_table s) (rule_columns rule)) (\<lambda>vs.
     then_do (assign_column (name rule) vs s) (\<lambda>s'.
     Inr (calc_log_operation rule
            (''Sum of columns: '' @ join_with '', '' (rule_columns rule)) s'))))"

definition apply_count ::
  "CalculationRule \<Rightarrow> DataFrameCalculator \<times> heap \<Rightarrow> exn + DataFrameCalculator \<times> heap" where
  "apply_count rule s =
     then_do (validate_columns_exist (rule_columns rule) (working_table s)) (\<lambda>_.
     then_do (assign_column (name rule) (count_axis1 (working_table s) (rule_columns rule)) s) (\<lambda>s'.
     Inr (calc_log_operation rule
            (''Count of non-null values in columns: '' @ join_with '', '' (rule_columns rule)) s')))"

definition apply_countif ::
  "calc_lib \<Rightarrow> CalculationRule \<Rightarrow> DataFrameCalculator \<times> heap \<Rightarrow> exn + DataFrameCalculator \<times> heap" where
  "apply_countif L rule s =
     (case condition rule of
        None \<Rightarrow> Inl (ValueError ''Condition is required for COUNTIF operation'')
      | Some cond \<Rightarrow>
          if cond = [] then Inl (ValueError ''Condition is required for COUNTIF operation'')
          else (case rule_columns rule of
                  [] \<Rightarrow> Inl (IndexError ''list index out of range'')
                | column # _ \<Rightarrow>
                    then_do (validate_columns_exist [column] (working_table s)) (\<lambda>_.
                    then_do (parse_condition L (working_table s) column cond) (\<lambda>c.
                    then_do (ndarray_sum_axis1 (np_where c (SInt 1) (SInt 0))) (\<lambda>vs.
                    then_do (assign_column (name rule) vs s) (\<lambda>s'.
                    Inr (calc_log_operation rule
                           (''Count of values in '' @ quoted column @ '' where '' @
                            format_condition L cond) s')))))))"

definition apply_sumif ::
  "calc_lib \<Rightarrow> CalculationRule \<Rightarrow> DataFrameCalculator \<times> heap \<Rightarrow> exn + DataFrameCalculator \<times> heap" where
  "apply_sumif L rule s =
     (case rule_columns rule of
        [cond_col, sum_col] \<Rightarrow>
          (case condition rule of
             None \<Rightarrow> Inl (ValueError ''Condition is required for SUMIF operation'')
           | Some cond \<Rightarrow>
               if cond = [] then Inl (ValueError ''Condition is required for SUMIF operation'')
               else
                 then_do (validate_columns_exist [cond_col, sum_col] (working_table s)) (\<lambda>_.
                 then_do (parse_condition L (working_table s) cond_col cond) (\<lambda>c.
                 then_do (ndarray_values
                            (np_where_column c (get_column (working_table s) sum_col) (Num 0))) (\<lambda>vs.
                 then_do (assign_column (name rule) vs s) (\<lambda>s'.
                 Inr (calc_log_operation rule
                        (''Sum of '' @ quoted sum_col @ '' where '' @ quoted cond_col @ '' '' @
                         format_condition L cond) s'))))))
      | _ \<Rightarrow>
          Inl (ValueError ''SUMIF requires exactly two columns: [condition_column, sum_column]''))"

definition apply_if ::
  "calc_lib \<Rightarrow> CalculationRule \<Rightarrow> DataFrameCalculator \<times> heap \<Rightarrow> exn + DataFrameCalculator \<times> heap" where
  "apply_if L rule s =
     (case condition rule of
        None \<Rightarrow> Inl (ValueError ''Condition is required for IF operation'')
      | Some cond \<Rightarrow>
          if cond = [] then Inl (ValueError ''Condition is required for IF operation'')
          else (case rule_columns rule of
                  [] \<Rightarrow> Inl (IndexError ''list index out of range'')
                | column # _ \<Rightarrow>
                    then_do (validate_columns_exist [column] (working_table s)) (\<lambda>_.
                    then_do (parse_condition L (working_table s) column cond) (\<lambda>c.
                    then_do (ndarray_values (np_where c (true_value rule) (false_value rule))) (\<lambda>vs.
                    then_do (assign_column (name rule) vs s) (\<lambda>s'.
                    Inr (calc_log_operation rule
                           (''IF '' @ quoted column @ '' '' @ format_condition L cond @
                            '' THEN '' @ str_scalar (true_value rule) @
                            '' ELSE '' @ str_scalar (false_value rule)) s')))))))"

text \<open>
  \<open>_apply_custom\<close>: whatever \<open>exec\<close> or the assignment of its result raises is raised
  again as a \<open>ValueError\<close> that quotes it.
\<close>

definition apply_custom ::
  "calc_lib \<Rightarrow> CalculationRule \<Rightarrow> DataFrameCalculator \<times> heap \<Rightarrow> exn + DataFrameCalculator \<times> heap" where
  "apply_custom L rule s =
     (case custom_function rule of
        None \<Rightarrow> Inl (ValueError ''Custom function is required for CUSTOM operation'')
      | Some code \<Rightarrow>
          if code = [] then Inl (ValueError ''Custom function is required for CUSTOM operation'')
          else
            (case then_do (py_exec L code (working_table s)) (\<lambda>res.
                  then_do (assign_column (name rule)
                             (case res of
                                ScalarResult v \<Rightarrow> replicate (length (rows (working_table s))) v
                              | ArrayResult vs \<Rightarrow> vs) s) (\<lambda>s'.
                  Inr (calc_log_operation rule (''Applied custom function: '' @ code) s'))) of
               Inl e \<Rightarrow> Inl (ValueError (''Error in custom function: '' @ str_exn e))
             | Inr s' \<Rightarrow> Inr s'))"

fun apply_rule ::
  "calc_lib \<Rightarrow> CalculationRule \<Rightarrow> DataFrameCalculator \<times> heap \<Rightarrow> exn + DataFrameCalculator \<times> heap" where
  "apply_rule L rule s =
     (case operation rule of
        OpSum \<Rightarrow> apply_sum L rule s
      | OpCount \<Rightarrow> apply_count rule s
      | OpCountif \<Rightarrow> apply_countif L rule s
      | OpSumif \<Rightarrow> apply_sumif L rule s
      | OpIf \<Rightarrow> apply_if L rule s
      | OpCustom \<Rightarrow> apply_custom L rule s)"

text \<open>
  The loop of \<open>apply_calculations\<close>: the rules in order, up to the first that raises;
  the state is the one the last successful rule left.
\<close>

fun apply_rules ::
  "calc_lib \<Rightarrow> CalculationRule list \<Rightarrow> DataFrameCalculator \<times> heap \<Rightarrow>
     exn option \<times> (DataFrameCalculator \<times> heap)" where
  "apply_rules L [] s = (None, s)"
| "apply_rules L (rule # rules) s =
     (case apply_rule L rule s of
        Inl e \<Rightarrow> (Some e, s)
      | Inr s' \<Rightarrow> apply_rules L rules s')"

definition apply_calculations ::
  "calc_lib \<Rightarrow> CalculationRule list \<Rightarrow> DataFrameCalculator \<times> heap \<Rightarrow>
     CalculationResult \<times> (DataFrameCalculator \<times> heap)" where
  "apply_calculations L rules s =
     (case apply_rules L rules s of
        (None, s') \<Rightarrow>
          (\<lparr>success = True,
            message = ''Successfully applied '' @ str_nat (length rules) @ '' calculation(s)'',
            columns_added = set (columns (working_table s')) - original_columns (fst s'),
            error = None,
            result_df = Some (calc_df (fst s'))\<rparr>, s')
      | (Some e, s') \<Rightarrow>
          (\<lparr>success = False,
            message = ''Error applying calculations: '' @ str_exn e,
            columns_added = {},
            error = Some (str_exn e),
            result_df = None\<rparr>, s'))"

section \<open>Pivot service\<close>

datatype aggregation =
  AggSum | AggCount | AggMean | AggMin | AggMax | AggFirst | AggLast | AggStd | AggVar

text \<open>\<open>aggfunc\<close>: one function for all value columns, or functions per column.\<close>

datatype aggfunc_spec = AggAll aggregation | AggPerColumn "(string \<times> aggregation list) list"

record PivotConfig =
  index :: "string list"
  pivot_columns :: "string list option"
  pivot_values :: "string list option"
  aggfunc :: aggfunc_spec
  pivot_fill_value :: "cell option"
  margins :: bool
  margins_name :: string

text \<open>
  The frame \<open>pd.pivot_table\<close> returns: the names of the index levels, one key tuple
  and one tuple of cells per row, the column labels (flat, or tuples of a MultiIndex)
  and the names of the column levels.
\<close>

datatype col_index = FlatIndex "string list" | MultiIndex "string list list"

record pivot_frame =
  index_names :: "string list"
  index_keys :: "cell list list"
  frame_columns :: col_index
  column_names :: "string option list"
  body :: "cell list list"

text \<open>
  The dictionary \<open>_pivot_to_dict\<close> builds, or the empty dictionary of a failure. A
  record of \<open>data\<close> lists its entries in insertion order.
\<close>

datatype pivot_dict =
    EmptyDict
  | PivotDict (dict_columns: "string list") (dict_data: "(string \<times> cell) list list")
      (dict_index_columns: "string list") (dict_column_levels: "string option list")

record PivotResult =
  pivot_success :: bool
  pivot_data :: pivot_dict
  pivot_config :: PivotConfig
  pivot_error :: "string option"
  pivot_message :: "string option"

text \<open>
  The library as a parameter: \<open>pd.pivot_table\<close>, and the conversion of a frame
  whose columns are a MultiIndex, of which only the outcome is represented (the frame
  of a specification without cross-tabulation columns and with one aggregation
  function has flat columns).
\<close>

record pivot_lib =
  pivot_table :: "dataframe \<Rightarrow> PivotConfig \<Rightarrow> exn + pivot_frame"
  multilevel_to_dict :: "pivot_frame \<Rightarrow> exn + pivot_dict"

text \<open>The scalar stored in a record: a missing value becomes \<open>None\<close>.\<close>

definition json_value :: "cell \<Rightarrow> cell" where
  "json_value c = (if isna c then PyNone else c)"

text \<open>
  \<open>_pivot_to_dict\<close> on a frame with flat columns. \<open>reset_index\<close> puts the index
  levels in front as columns and raises when a level name is already a column; a row in
  which a label occurs twice yields a Series under that label, whose truth value raises.
\<close>

definition pivot_to_dict :: "pivot_lib \<Rightarrow> pivot_frame \<Rightarrow> exn + pivot_dict" where
  "pivot_to_dict L pf =
     (case frame_columns pf of
        MultiIndex labels \<Rightarrow> multilevel_to_dict L pf
      | FlatIndex labels \<Rightarrow>
          if \<not> distinct (index_names pf) \<or> set (index_names pf) \<inter> set labels \<noteq> {}
          then Inl (ValueError ''cannot insert level, already exists'')
          else
            (let cols = index_names pf @ labels;
                 result_rows = map2 (\<lambda>k b. k @ b) (index_keys pf) (body pf)
             in if result_rows \<noteq> [] \<and> \<not> distinct cols
                then Inl (ValueError ''The truth value of a Series is ambiguous'')
                else Inr (PivotDict cols
                            (map (\<lambda>r. map (\<lambda>col. (col, json_value (row_get cols r col))) cols)
                               result_rows)
                            (index_names pf) (column_names pf))))"

definition missing_columns :: "dataframe \<Rightarrow> PivotConfig \<Rightarrow> string list" where
  "missing_columns df config =
     map (\<lambda>col. ''Index column not found: '' @ col)
       (filter (\<lambda>col. col \<notin> set (columns df)) (index config)) @
     (case pivot_columns config of
        None \<Rightarrow> []
      | Some cols \<Rightarrow>
          map (\<lambda>col. ''Column not found: '' @ col) (filter (\<lambda>col. col \<notin> set (columns df)) cols)) @
     (case pivot_values config of
        None \<Rightarrow> []
      | Some cols \<Rightarrow>
          map (\<lambda>col. ''Value column not found: '' @ col)
            (filter (\<lambda>col. col \<notin> set (columns df)) cols))"

definition create_pivot :: "pivot_lib \<Rightarrow> dataframe \<Rightarrow> PivotConfig \<Rightarrow> PivotResult" where
  "create_pivot L df config =
     (if missing_columns df config \<noteq> []
      then \<lparr>pivot_success = False, pivot_data = EmptyDict, pivot_config = config,
            pivot_error = Some ''Column validation failed'',
            pivot_message = Some (join_with '', '' (missing_columns df config))\<rparr>
      else
        (case then_do (pivot_table L df config) (pivot_to_dict L) of
           Inr result \<Rightarrow>
             \<lparr>pivot_success = True, pivot_data = result, pivot_config = config,
              pivot_error = None,
              pivot_message = Some ''Pivot table generated successfully''\<rparr>
         | Inl e \<Rightarrow>
             \<lparr>pivot_success = False, pivot_data = EmptyDict, pivot_config = config,
              pivot_error = Some ''Error generating pivot table'',
              pivot_message = Some (str_exn e)\<rparr>))"

text \<open>The names a specification lists that are not columns of the table.\<close>

definition missing_names :: "dataframe \<Rightarrow> PivotConfig \<Rightarrow> string list" where
  "missing_names df config =
     filter (\<lambda>col. col \<notin> set (columns df))
       (index config @ (case pivot_columns config of None \<Rightarrow> [] | Some cols \<Rightarrow> cols) @
        (case pivot_values config of None \<Rightarrow> [] | Some cols \<Rightarrow> cols))"

subsection \<open>\<open>pd.pivot_table\<close> for sums over row groups\<close>

text \<open>
  The behaviour of \<open>pd.pivot_table\<close> with its defaults \<open>sort=True\<close> and
  \<open>dropna=True\<close>, on the specifications that group by index columns only and sum
  listed numeric value columns: the rows whose key has no missing cell are grouped by
  their key tuple, the groups are ordered by ascending key, every value column (the
  columns ordered by label) holds the sum of the group's cells that are not missing,
  and with \<open>margins=True\<close> one more row, labelled \<open>margins_name\<close>, holds the sums over
  the rows without a missing cell; a key that already holds \<open>margins_name\<close> raises.
  A key cell is ordered by the encoding below: numbers by value, strings by their
  characters.
\<close>

fun encode_cell :: "cell \<Rightarrow> int list" where
  "encode_cell (Num n) = [0, n]"
| "encode_cell (Str s) = 1 # map (\<lambda>c. int (of_char c)) s"
| "encode_cell (Timestamp t) = [2, t]"
| "encode_cell c = []"

definition key_of :: "dataframe \<Rightarrow> string list \<Rightarrow> cell list \<Rightarrow> cell list" where
  "key_of df idx r = map (row_get (columns df) r) idx"

definition group_rows :: "dataframe \<Rightarrow> string list \<Rightarrow> cell list list" where
  "group_rows df idx = filter (\<lambda>r. \<not> list_ex isna (key_of df idx r)) (rows df)"

definition group_keys :: "dataframe \<Rightarrow> string list \<Rightarrow> cell list list" where
  "group_keys df idx =
     sort_key (map encode_cell) (remdups (map (key_of df idx) (group_rows df idx)))"

definition column_sum :: "dataframe \<Rightarrow> cell list list \<Rightarrow> string \<Rightarrow> cell" where
  "column_sum df rs v = Num (sum_list (map (\<lambda>r. num_value (row_get (columns df) r v)) rs))"

definition group_sums :: "dataframe \<Rightarrow> string list \<Rightarrow> string list \<Rightarrow> cell list \<Rightarrow> cell list" where
  "group_sums df idx vals k =
     map (column_sum df (filter (\<lambda>r. key_of df idx r = k) (group_rows df idx))) (sort vals)"

definition margin_key :: "string list \<Rightarrow> string \<Rightarrow> cell list" where
  "margin_key idx nm = Str nm # replicate (length idx - 1) (Str [])"

definition margin_sums :: "dataframe \<Rightarrow> string list \<Rightarrow> string list \<Rightarrow> cell list" where
  "margin_sums df idx vals =
     map (column_sum df
            (filter (\<lambda>r. \<not> list_ex isna (map (row_get (columns df) r) (idx @ vals))) (rows df)))
       (sort vals)"

fun is_num :: "cell \<Rightarrow> bool" where
  "is_num (Num n) = True"
| "is_num c = False"

fun is_timestamp :: "cell \<Rightarrow> bool" where
  "is_timestamp (Timestamp t) = True"
| "is_timestamp c = False"

definition homogeneous :: "cell list \<Rightarrow> bool" where
  "homogeneous col =
     (let xs = filter (\<lambda>c. \<not> isna c) col
      in list_all is_num xs \<or> list_all is_str xs \<or> list_all is_timestamp xs)"

definition sums_over_groups :: "dataframe \<Rightarrow> PivotConfig \<Rightarrow> bool" where
  "sums_over_groups df config \<longleftrightarrow>
     wf_frame df \<and> index config \<noteq> [] \<and>
     (pivot_columns config = None \<or> pivot_columns config = Some []) \<and>
     aggfunc config = AggAll AggSum \<and> pivot_fill_value config = None \<and>
     (case pivot_values config of
        None \<Rightarrow> False
      | Some vals \<Rightarrow>
          vals \<noteq> [] \<and> distinct (index config @ vals) \<and>
          list_all (\<lambda>col. col \<in> set (columns df)) (index config @ vals) \<and>
          list_all (\<lambda>v. list_all is_numeric (get_column df v)) vals \<and>
          list_all (\<lambda>k. homogeneous (get_column df k)) (index config) \<and>
          group_rows df (index config) \<noteq> [])"

definition margins_conflict :: "dataframe \<Rightarrow> PivotConfig \<Rightarrow> bool" where
  "margins_conflict df config \<longleftrightarrow>
     margins config \<and>
     list_ex (\<lambda>k. Str (margins_name config) \<in> set k) (group_keys df (index config))"

definition grouped_frame :: "dataframe \<Rightarrow> PivotConfig \<Rightarrow> string list \<Rightarrow> pivot_frame" where
  "grouped_frame df config vals =
     (let idx = index config
      in \<lparr>index_names = idx,
          index_keys = group_keys df idx @
            (if margins config then [margin_key idx (margins_name config)] else []),
          frame_columns = FlatIndex (sort vals),
          column_names = [None],
          body = map (group_sums df idx vals) (group_keys df idx) @
            (if margins config then [margin_sums df idx vals] else [])\<rparr>)"

definition pandas_pivot ::
  "(dataframe \<Rightarrow> PivotConfig \<Rightarrow> exn + pivot_frame) \<Rightarrow> dataframe \<Rightarrow> PivotConfig \<Rightarrow> exn + pivot_frame" where
  "pandas_pivot rest df config =
     (if sums_over_groups df config
      then (case pivot_values config of
              None \<Rightarrow> rest df config
            | Some vals \<Rightarrow>
                if margins_conflict df config
                then Inl (ValueError (''Conflicting name '' @ [CHR 0x22] @ margins_name config @
                                      [CHR 0x22] @ '' in margins''))
                else Inr (grouped_frame df config vals))
      else rest df config)"

text \<open>
  The library for evaluating the pivot service on such specifications; nothing else is
  evaluated, and the instance raises there.
\<close>

definition sums_lib :: pivot_lib where
  "sums_lib =
     \<lparr>pivot_table = pandas_pivot (\<lambda>df config. Inl (OtherError ''not evaluated'')),
      multilevel_to_dict = (\<lambda>pf. Inl (OtherError ''not evaluated''))\<rparr>"

text \<open>The key tuples of the records of a result: the entries under the index columns.\<close>

definition record_keys :: "nat \<Rightarrow> pivot_dict \<Rightarrow> cell list list" where
  "record_keys n d = (case d of EmptyDict \<Rightarrow> [] | PivotDict cols data ic cl \<Rightarrow> map (\<lambda>r. map snd (take n r)) data)"

subsection \<open>The library of the calculation service on integers and ASCII text\<close>

text \<open>
  An instance for evaluating the calculation service on concrete tables: a column is
  compared cell by cell with a scalar, a missing cell comparing as unequal; the text of
  a number is its decimal digits. Regular expressions, custom expressions and sums of
  selections that are not numeric are not evaluated: the instance raises there.
\<close>

definition compare_ints :: "string \<Rightarrow> int \<Rightarrow> int \<Rightarrow> bool" where
  "compare_ints op a b =
     (if op = ''=='' then a = b else if op = ''!='' then a \<noteq> b
      else if op = ''>'' then a > b else if op = ''>='' then a \<ge> b
      else if op = ''<'' then a < b else a \<le> b)"

definition compare_strings :: "string \<Rightarrow> string \<Rightarrow> string \<Rightarrow> bool" where
  "compare_strings op a b =
     (if op = ''=='' then a = b else if op = ''!='' then a \<noteq> b
      else if op = ''>'' then a > b else if op = ''>='' then a \<ge> b
      else if op = ''<'' then a < b else a \<le> b)"

fun compare_cell :: "string \<Rightarrow> cell \<Rightarrow> scalar \<Rightarrow> exn + bool" where
  "compare_cell op (Num a) (SInt b) = Inr (compare_ints op a b)"
| "compare_cell op (Str a) (SStr b) = Inr (compare_strings op a b)"
| "compare_cell op c v =
     (if isna c \<or> v = SNone then Inr (op = ''!='')
      else if op = ''=='' then Inr False
      else if op = ''!='' then Inr True
      else Inl (TypeError ''comparison not supported between these types''))"

fun collect :: "(exn + 'a) list \<Rightarrow> exn + 'a list" where
  "collect [] = Inr []"
| "collect (x # xs) = then_do x (\<lambda>v. then_do (collect xs) (\<lambda>vs. Inr (v # vs)))"

definition compare_column :: "string \<Rightarrow> cell list \<Rightarrow> pyval \<Rightarrow> exn + bool list" where
  "compare_column op col v =
     (case v of
        Scalar x \<Rightarrow> collect (map (\<lambda>c. compare_cell op c x) col)
      | PList xs \<Rightarrow>
          if length xs \<noteq> length col then Inl (ValueError ''Lengths must match to compare'')
          else collect (map2 (compare_cell op) col xs))"

definition isin_column :: "cell list \<Rightarrow> pyval \<Rightarrow> exn + bool list" where
  "isin_column col v =
     (case v of
        Scalar x \<Rightarrow> Inl (TypeError ''only list-like objects are allowed to be passed to isin()'')
      | PList xs \<Rightarrow> Inr (map (\<lambda>c. list_ex (\<lambda>x. cell_of x = c) xs) col))"

fun repr_scalar :: "scalar \<Rightarrow> string" where
  "repr_scalar (SStr s) = quoted s"
| "repr_scalar x = str_scalar x"

definition plain_lib :: calc_lib where
  "plain_lib =
     \<lparr>series_compare = compare_column,
      series_isin = isin_column,
      regex_contains = (\<lambda>pat strs. Inl (OtherError ''not evaluated'')),
      value_str = (\<lambda>col c. str_int (num_value c)),
      str_list = (\<lambda>xs. ''['' @ join_with '', '' (map repr_scalar xs) @ '']''),
      object_sum = (\<lambda>sel. Inl (TypeError ''not evaluated'')),
      py_exec = (\<lambda>code df. Inl (OtherError ''not evaluated''))\<rparr>"

text \<open>The calculator's working table is an object at or after position \<open>n\<close>.\<close>

definition calc_fresh :: "nat \<Rightarrow> DataFrameCalculator \<times> heap \<Rightarrow> bool" where
  "calc_fresh n s \<longleftrightarrow> n \<le> calc_df (fst s) \<and> calc_df (fst s) < length (snd s)"

section \<open>Example tables and options\<close>



definition gaps_table :: dataframe where
  "gaps_table = \<lparr>columns = [''a'', ''b''], rows = [[Num 1, Str '' x ''], [NaN, Str ''y''], [Num 3, PyNone], [Num 4, Str ''z'']]\<rparr>"


definition fill_nothing :: CleaningOptions where
  "fill_nothing = \<lparr>remove_duplicates = False, handle_missing = ''fill'', fill_value = None,
     trim_whitespace = True, text_case = None, date_columns = [],
     date_format = None\<rparr>"

definition full_table :: dataframe where
  "full_table = \<lparr>columns = [''a'', ''b''], rows = [[Num 1, Str ''x''], [Num 4, Str ''z'']]\<rparr>"

definition empty_table :: dataframe where
  "empty_table = \<lparr>columns = [], rows = []\<rparr>"

definition two_missing :: PivotConfig where
  "two_missing = \<lparr>index = [''missing1''], pivot_columns = None, pivot_values = Some [''missing2''],
     aggfunc = AggAll AggSum, pivot_fill_value = None, margins = False, margins_name = ''Total''\<rparr>"


definition reversed_sales :: dataframe where
  "reversed_sales = \<lparr>columns = [''cat'', ''val''],
     rows = [[Str ''Y'', Num 5], [Str ''X'', Num 10], [Str ''X'', Num 20]]\<rparr>"

definition sum_by_cat :: PivotConfig where
  "sum_by_cat = \<lparr>index = [''cat''], pivot_columns = None, pivot_values = Some [''val''],
     aggfunc = AggAll AggSum, pivot_fill_value = None, margins = False, margins_name = ''Total''\<rparr>"


section \<open>Properties of the data cleaning service\<close>

subsection \<open>The working table after each step\<close>

lemma init_fresh:
  "DataCleaner_init h r = (self, h') \<Longrightarrow>
     cleaned_df self = length h \<and> h' = h @ [h ! r] \<and> original_df self = r \<and> applied_operations self = []"
  by (auto simp: DataCleaner_init_def copy_frame_def alloc_def)

lemma get_cleaned_init: "get_cleaned_data (DataCleaner_init h r) = h ! r"
  by (simp add: DataCleaner_init_def copy_frame_def alloc_def get_cleaned_data_def)



lemma fill_none: "handle_missing_values ''fill'' None s = s"
  by (cases s) (simp add: handle_missing_values_def)

lemma length_filter_isna_0: "length (filter isna r) = 0 \<Longrightarrow> map (\<lambda>c. if isna c then v else c) r = r"
  by (induction r) (auto split: if_splits)

lemma fillna_no_nulls: "isna_count df = 0 \<Longrightarrow> fillna v df = df"
proof -
  assume a: "isna_count df = 0"
  have "\<forall>r\<in>set (rows df). length (filter isna r) = 0"
    using a by (auto simp: isna_count_def)
  then have "map (map (\<lambda>c. if isna c then v else c)) (rows df) = rows df"
    by (simp add: map_idI length_filter_isna_0)
  then show ?thesis by (simp add: fillna_def)
qed

lemma fill_no_nulls:
  assumes "isna_count (get_cleaned_data s) = 0"
  shows "get_applied_operations (handle_missing_values ''fill'' (Some v) s) = get_applied_operations s"
    and "get_cleaned_data (handle_missing_values ''fill'' (Some v) s) = get_cleaned_data s"
  using assms
  by (cases s; simp add: handle_missing_values_def alloc_def get_cleaned_data_def get_applied_operations_def Let_def fillna_no_nulls)+

lemma clean_fill_none:
  "handle_missing options = ''fill'' \<Longrightarrow> fill_value options = None \<Longrightarrow>
   clean L options s = clean L (options\<lparr>handle_missing := ''keep''\<rparr>) s"
  by (simp add: clean_def fill_none Let_def)

lemma same_below_refl: "fresh n s \<Longrightarrow> same_below n s s"
  by (simp add: same_below_def)

lemma same_below_trans: "same_below n s s' \<Longrightarrow> same_below n s' s'' \<Longrightarrow> same_below n s s''"
  by (simp add: same_below_def)


lemma init_heap: "take (length h) (snd (DataCleaner_init h r)) = h"
  by (simp add: DataCleaner_init_def copy_frame_def alloc_def)

lemma remove_duplicates_frame: "fresh n s \<Longrightarrow> same_below n s (DataCleaner_remove_duplicates s)"
  by (cases s) (auto simp: DataCleaner_remove_duplicates_def alloc_def same_below_def fresh_def Let_def log_operation_def)

lemma handle_missing_frame: "fresh n s \<Longrightarrow> same_below n s (handle_missing_values m fv s)"
  by (cases s) (auto simp: handle_missing_values_def alloc_def same_below_def fresh_def Let_def log_operation_def split: option.splits)

lemma length_apply_to_columns [simp]: "length (apply_to_columns f cols r h) = length h"
  by (induction cols arbitrary: h) auto

lemma take_apply_to_columns: "n \<le> r \<Longrightarrow> take n (apply_to_columns f cols r h) = take n h"
  by (induction cols arbitrary: h) auto


lemma trim_frame: "fresh n s \<Longrightarrow> same_below n s (DataCleaner_trim_whitespace L s)"
  by (cases s) (auto simp: DataCleaner_trim_whitespace_def same_below_def fresh_def Let_def log_operation_def take_apply_to_columns)

lemma case_frame: "fresh n s \<Longrightarrow> same_below n s (standardize_text_case L c s)"
proof -
  assume a: "fresh n s"
  obtain self h where s: "s = (self, h)" by (cases s)
  define cols where "cols = str_cols L (h ! cleaned_df self)"
  define h' where "h' = (if c = ''upper''
                then apply_to_columns (on_str (str_upper L)) cols (cleaned_df self) h
                else if c = ''lower''
                then apply_to_columns (on_str (str_lower L)) cols (cleaned_df self) h
                else if c = ''title''
                then apply_to_columns (on_str (str_title L)) cols (cleaned_df self) h
                else h)"
  have l: "length h' = length h"
    unfolding h'_def by simp
  have t: "take n h' = take n h"
    using a unfolding h'_def s fresh_def by (simp add: take_apply_to_columns)
  have e: "standardize_text_case L c s =
      (if length cols > 0
       then (log_operation ''standardize_text_case'' [(''case'', DText c)] self, h')
       else (self, h'))"
    unfolding standardize_text_case_def s Let_def cols_def h'_def by (simp only: prod.case)
  show ?thesis
    unfolding e using a l t by (simp add: same_below_def fresh_def s log_operation_def)
qed

lemma parse_date_columns_frame:
  "fresh n s \<Longrightarrow> same_below n s (parse_date_columns L fmt cols s)"
proof (induction cols arbitrary: s)
  case Nil
  then show ?case by (simp add: same_below_refl)
next
  case (Cons col cols)
  obtain self h where s: "s = (self, h)" by (cases s)
  define attempt where "attempt =
    (case to_datetime L (case fmt of None \<Rightarrow> None | Some f \<Rightarrow> if f = [] then None else Some f)
            (get_column (h ! cleaned_df self) col) of
       Inl e \<Rightarrow> Inl e
     | Inr vs \<Rightarrow> set_column (h ! cleaned_df self) col vs)"
  have eq: "parse_date_columns L fmt (col # cols) (self, h) =
      (case attempt of
         Inl e \<Rightarrow>
           parse_date_columns L fmt cols
             (log_operation ''parse_dates_error''
                [(''column'', DText col), (''error'', DText (str_exn e))] self, h)
       | Inr df' \<Rightarrow> parse_date_columns L fmt cols (self, h[cleaned_df self := df']))"
    unfolding attempt_def parse_date_columns.simps Let_def ..
  show ?case
  proof (cases attempt)
    case (Inl e)
    let ?s1 = "(log_operation ''parse_dates_error''
                  [(''column'', DText col), (''error'', DText (str_exn e))] self, h)"
    have f1: "same_below n s ?s1"
      using Cons.prems unfolding s same_below_def fresh_def log_operation_def by simp
    then have "fresh n ?s1" unfolding same_below_def by (rule conjunct1)
    then have "same_below n ?s1 (parse_date_columns L fmt cols ?s1)" by (rule Cons.IH)
    with f1 have "same_below n s (parse_date_columns L fmt cols ?s1)" by (rule same_below_trans)
    then show ?thesis unfolding s eq Inl sum.case .
  next
    case (Inr df')
    let ?s1 = "(self, h[cleaned_df self := df'])"
    have f1: "same_below n s ?s1"
      using Cons.prems unfolding s same_below_def fresh_def by simp
    then have "fresh n ?s1" unfolding same_below_def by (rule conjunct1)
    then have "same_below n ?s1 (parse_date_columns L fmt cols ?s1)" by (rule Cons.IH)
    with f1 have "same_below n s (parse_date_columns L fmt cols ?s1)" by (rule same_below_trans)
    then show ?thesis unfolding s eq Inr sum.case .
  qed
qed

lemma parse_dates_frame: "fresh n s \<Longrightarrow> same_below n s (parse_dates L dcols fmt s)"
proof -
  assume a: "fresh n s"
  let ?present = "filter (\<lambda>col. col \<in> set (columns (snd s ! cleaned_df (fst s)))) dcols"
  have "same_below n s (parse_date_columns L fmt ?present s)"
    using a by (rule parse_date_columns_frame)
  then show ?thesis
    by (auto simp: parse_dates_def same_below_refl[OF a] Let_def same_below_def fresh_def log_operation_def split: prod.splits)
qed

lemma clean_frame: "fresh n s \<Longrightarrow> same_below n s (clean L options s)"
proof -
  assume a: "fresh n s"
  define s1 where "s1 = (if remove_duplicates options then DataCleaner_remove_duplicates s else s)"
  define s2 where "s2 = (if handle_missing options \<noteq> ''keep''
                then handle_missing_values (handle_missing options) (fill_value options) s1
                else s1)"
  define s3 where "s3 = (if trim_whitespace options then DataCleaner_trim_whitespace L s2 else s2)"
  define s4 where "s4 = (case text_case options of
                  None \<Rightarrow> s3
                | Some c \<Rightarrow> if c = [] then s3 else standardize_text_case L c s3)"
  define s5 where "s5 = (if date_columns options \<noteq> []
                then parse_dates L (date_columns options) (date_format options) s4
                else s4)"
  have e: "clean L options s = s5"
    unfolding clean_def Let_def s1_def s2_def s3_def s4_def s5_def ..
  have b1: "same_below n s s1"
    using a by (simp add: s1_def remove_duplicates_frame same_below_refl)
  then have f1: "fresh n s1" by (simp add: same_below_def)
  have "same_below n s1 s2"
    using f1 by (simp add: s2_def handle_missing_frame same_below_refl)
  with b1 have b2: "same_below n s s2" by (rule same_below_trans)
  then have f2: "fresh n s2" by (simp add: same_below_def)
  have "same_below n s2 s3"
    using f2 by (simp add: s3_def trim_frame same_below_refl)
  with b2 have b3: "same_below n s s3" by (rule same_below_trans)
  then have f3: "fresh n s3" by (simp add: same_below_def)
  have "same_below n s3 s4"
    using f3 by (simp add: s4_def case_frame same_below_refl split: option.splits)
  with b3 have b4: "same_below n s s4" by (rule same_below_trans)
  then have f4: "fresh n s4" by (simp add: same_below_def)
  have "same_below n s4 s5"
    using f4 by (simp add: s5_def parse_dates_frame same_below_refl)
  with b4 have "same_below n s s5" by (rule same_below_trans)
  then show ?thesis by (simp add: e)
qed


subsection \<open>Cells that differ in the text of a string only\<close>
lemma str_variant_refl [simp]: "str_variant c c"
  by (cases c) auto



lemma str_variant_on_str [simp]: "str_variant c (on_str f c)"
  by (cases c) auto

lemma row_variant_refl [simp]: "list_all2 str_variant r r"
  by (simp add: list_all2_refl)

lemma row_variant_map_under [simp]: "list_all2 str_variant r (map_under ns k (on_str f) r)"
  by (induction ns k "on_str f" r rule: map_under.induct) (auto simp: list_all2_refl)



lemma frame_variant_refl [simp]: "frame_variant d d"
  by (simp add: frame_variant_def list_all2_refl)


lemma frame_variant_map_column [simp]: "frame_variant d (map_column (on_str f) k d)"
  by (simp add: frame_variant_def map_column_def list_all2_map2 list_all2_refl)




lemma no_missing_dropna [simp]: "no_missing (dropna df)"
  by (simp add: no_missing_def dropna_def list_all_iff)




subsection \<open>Dropping rows with missing values\<close>




subsection \<open>Filling without a fill value\<close>

text \<open>
  C9. With \<open>handle_missing = "fill"\<close> and no \<open>fill_value\<close> the missing-value
  step does nothing: \<open>_handle_missing_values\<close> returns the cleaner as it was (no cell
  changed, nothing logged, nothing raised), so that \<open>clean\<close> behaves as with
  \<open>handle_missing = "keep"\<close>. And when a fill value is given but no cell is missing,
  the step appends nothing to the log and leaves the table's contents as they were.
\<close>

theorem fill_without_value_is_noop:
  "(handle_missing options = ''fill'' \<and> fill_value options = None \<longrightarrow>
      clean L options s = clean L (options\<lparr>handle_missing := ''keep''\<rparr>) s) \<and>
   handle_missing_values ''fill'' None s = s \<and>
   (isna_count (get_cleaned_data s) = 0 \<longrightarrow>
      get_applied_operations (handle_missing_values ''fill'' (Some v) s) = get_applied_operations s \<and>
      get_cleaned_data (handle_missing_values ''fill'' (Some v) s) = get_cleaned_data s)"
  using clean_fill_none[of options L s] fill_none[of s] fill_no_nulls[of s v] by blast

theorem fill_without_value_is_noop_witness:
  "handle_missing fill_nothing = ''fill'' \<and> fill_value fill_nothing = None \<and>
   clean ascii_lib fill_nothing (DataCleaner_init [gaps_table] 0) =
     clean ascii_lib (fill_nothing\<lparr>handle_missing := ''keep''\<rparr>) (DataCleaner_init [gaps_table] 0) \<and>
   get_cleaned_data (handle_missing_values ''fill'' None (DataCleaner_init [gaps_table] 0)) = gaps_table \<and>
   isna_count (get_cleaned_data (DataCleaner_init [full_table] 0)) = 0 \<and>
   get_applied_operations (handle_missing_values ''fill'' (Some (Num 0)) (DataCleaner_init [full_table] 0)) = [] \<and>
   get_cleaned_data (handle_missing_values ''fill'' (Some (Num 0)) (DataCleaner_init [full_table] 0)) = full_table"
proof -
  have a: "handle_missing fill_nothing = ''fill'' \<and> fill_value fill_nothing = None"
    by (simp add: fill_nothing_def)
  have b: "isna_count (get_cleaned_data (DataCleaner_init [full_table] 0)) = 0"
    by (simp add: get_cleaned_init full_table_def isna_count_def)
  have c: "get_applied_operations (DataCleaner_init [full_table] 0) = []"
    by (simp add: get_applied_operations_def DataCleaner_init_def copy_frame_def alloc_def)
  from fill_without_value_is_noop[of fill_nothing ascii_lib "DataCleaner_init [gaps_table] 0"]
       fill_without_value_is_noop[of fill_nothing ascii_lib "DataCleaner_init [full_table] 0" "Num 0"]
       a b c
  show ?thesis by (simp add: get_cleaned_init)
qed

section \<open>Properties of the pivot service\<close>

subsection \<open>Validation of the column names\<close>

lemma sublist_join_with: "m \<in> set xs \<Longrightarrow> sublist m (join_with sep xs)"
proof (induction sep xs rule: join_with.induct)
  case (1 sep)
  then show ?case by simp
next
  case (2 sep x)
  then show ?case by simp
next
  case (3 sep x y xs)
  show ?case
  proof (cases "m = x")
    case True
    then show ?thesis by simp
  next
    case False
    with 3 have "sublist m (join_with sep (y # xs))" by simp
    moreover have "sublist (join_with sep (y # xs)) ((x @ sep) @ join_with sep (y # xs))"
      by (rule sublist_append_leftI)
    ultimately have "sublist m ((x @ sep) @ join_with sep (y # xs))"
      by (rule sublist_order.order.trans)
    then show ?thesis by simp
  qed
qed

lemma missing_names_covered:
  assumes "n \<in> set (missing_names df config)"
  shows "\<exists>m \<in> set (missing_columns df config). suffix n m"
proof -
  from assms have "(n \<in> set (index config) \<or>
      (\<exists>cols. pivot_columns config = Some cols \<and> n \<in> set cols) \<or>
      (\<exists>cols. pivot_values config = Some cols \<and> n \<in> set cols)) \<and> n \<notin> set (columns df)"
    by (cases "pivot_columns config"; cases "pivot_values config"; auto simp: missing_names_def)
  then consider
      (i) "n \<in> set (index config)" "n \<notin> set (columns df)"
    | (c) cols where "pivot_columns config = Some cols" "n \<in> set cols" "n \<notin> set (columns df)"
    | (v) cols where "pivot_values config = Some cols" "n \<in> set cols" "n \<notin> set (columns df)"
    by blast
  then show ?thesis
  proof cases
    case i
    then have "''Index column not found: '' @ n \<in> set (missing_columns df config)"
      by (simp add: missing_columns_def)
    then show ?thesis by (blast intro: suffix_appendI)
  next
    case c
    then have "''Column not found: '' @ n \<in> set (missing_columns df config)"
      by (simp add: missing_columns_def)
    then show ?thesis by (blast intro: suffix_appendI)
  next
    case v
    then have "''Value column not found: '' @ n \<in> set (missing_columns df config)"
      by (simp add: missing_columns_def)
    then show ?thesis by (blast intro: suffix_appendI)
  qed
qed

lemma missing_columns_empty_iff: "missing_columns df config = [] \<longleftrightarrow> missing_names df config = []"
  by (auto simp: missing_columns_def missing_names_def filter_empty_conv split: option.splits)

text \<open>
  C3. When a name listed under \<open>index\<close>, \<open>columns\<close> or \<open>values\<close> is not a column
  of the table, \<open>create_pivot\<close> returns the validation failure (\<open>success = False\<close>,
  error \<open>Column validation failed\<close>, no data); its message joins one entry for every
  missing name, so that every missing name occurs in it, and the result does not depend
  on the library: nothing is aggregated before the validation has passed.
\<close>

theorem create_pivot_lists_all_missing:
  assumes "missing_names df config \<noteq> []"
  shows "create_pivot L df config =
           \<lparr>pivot_success = False, pivot_data = EmptyDict, pivot_config = config,
            pivot_error = Some ''Column validation failed'',
            pivot_message = Some (join_with '', '' (missing_columns df config))\<rparr> \<and>
         (\<forall>n \<in> set (missing_names df config).
            sublist n (join_with '', '' (missing_columns df config))) \<and>
         create_pivot L' df config = create_pivot L df config"
proof -
  from assms have ne: "missing_columns df config \<noteq> []"
    by (simp add: missing_columns_empty_iff)
  have "sublist n (join_with '', '' (missing_columns df config))"
    if "n \<in> set (missing_names df config)" for n
  proof -
    from missing_names_covered[OF that] obtain m
      where m: "m \<in> set (missing_columns df config)" and s: "suffix n m" by blast
    from s have "sublist n m" by (rule suffix_imp_sublist)
    moreover from m have "sublist m (join_with '', '' (missing_columns df config))"
      by (rule sublist_join_with)
    ultimately show ?thesis by (rule sublist_order.order.trans)
  qed
  with ne show ?thesis by (simp add: create_pivot_def)
qed

theorem create_pivot_lists_all_missing_witness:
  "missing_names empty_table two_missing = [''missing1'', ''missing2''] \<and>
   pivot_success (create_pivot sums_lib empty_table two_missing) = False \<and>
   pivot_message (create_pivot sums_lib empty_table two_missing) =
     Some ''Index column not found: missing1, Value column not found: missing2'' \<and>
   sublist ''missing1'' ''Index column not found: missing1, Value column not found: missing2'' \<and>
   sublist ''missing2'' ''Index column not found: missing1, Value column not found: missing2''"
proof -
  have n: "missing_names empty_table two_missing = [''missing1'', ''missing2'']"
    by (simp add: missing_names_def empty_table_def two_missing_def)
  have m: "join_with '', '' (missing_columns empty_table two_missing) =
      ''Index column not found: missing1, Value column not found: missing2''"
    by (simp add: missing_columns_def empty_table_def two_missing_def)
  from n have "missing_names empty_table two_missing \<noteq> []" by simp
  from create_pivot_lists_all_missing[OF this, of sums_lib sums_lib] n m
  show ?thesis by simp
qed

subsection \<open>Failures during the computation of a pivot\<close>




end
